theory Spec2Isabelle
  imports Complex_Main
begin

section \<open>Values, requests, responses\<close>

text \<open>
  Python values as they occur here: what \<open>resp.json()\<close> yields, what is put into a
  query mapping or a JSON body (\<open>dict[str, Any]\<close>). A \<open>dict\<close> is an association list
  in insertion order. A \<open>str\<close> is a \<open>string\<close>; text outside ASCII is held as its UTF-8
  bytes, which keeps concatenation and emptiness as Python has them.
\<close>

datatype pyval =
    PNone
  | PBool bool
  | PInt int
  | PFloat real
  | PStr string
  | PList "pyval list"
  | PDict "(string \<times> pyval) list"

text \<open>Python's truth value of an object (\<open>if result\<close>, \<open>x or None\<close>).\<close>

fun truthy :: "pyval \<Rightarrow> bool" where
  "truthy PNone = False"
| "truthy (PBool b) = b"
| "truthy (PInt i) = (i \<noteq> 0)"
| "truthy (PFloat r) = (r \<noteq> 0)"
| "truthy (PStr s) = (s \<noteq> [])"
| "truthy (PList xs) = (xs \<noteq> [])"
| "truthy (PDict kvs) = (kvs \<noteq> [])"

text \<open>An argument of type \<open>str | None\<close> seen as a value of type \<open>Any\<close>.\<close>

fun opt :: "string option \<Rightarrow> pyval" where
  "opt None = PNone"
| "opt (Some s) = PStr s"

text \<open>\<open>str(n)\<close> for a Python \<open>int\<close>.\<close>

definition digit :: "nat \<Rightarrow> char" where
  "digit d = ''0123456789'' ! d"

fun str_nat :: "nat \<Rightarrow> string" where
  "str_nat n =
     (if n < 10 then [digit n]
      else str_nat (n div 10) @ [digit (n mod 10)])"

declare str_nat.simps [simp del]

definition str_int :: "int \<Rightarrow> string" where
  "str_int i = (if i < 0 then ''-'' @ str_nat (nat (- i)) else str_nat (nat i))"

text \<open>
  The arguments of \<open>self._client.request(method, path, params=params, json=json_body)\<close>.
\<close>

record request =
  req_method :: string
  req_path :: string
  req_params :: "(string \<times> pyval) list option"
  req_json :: "(string \<times> pyval) list option"

text \<open>
  What the code reads of an \<open>httpx\<close> response: \<open>resp.status_code\<close>, \<open>resp.text\<close> and
  \<open>resp.json()\<close>; the last is \<open>None\<close> when the body is not JSON, where the call raises.
\<close>

record response =
  status_code :: int
  resp_text :: string
  resp_json :: "pyval option"

text \<open>
  Exceptions: the typed API error of \<open>client.py\<close> with its two fields, the
  \<open>RuntimeError\<close> of \<open>_get_client\<close>, and the faults raised inside the HTTP library
  (a decoding error of \<open>resp.json()\<close>, a connection or timeout fault of \<open>request\<close>,
  the encoding error of a header that is not ASCII).
\<close>

datatype exn =
    KotApiError int string
  | RuntimeError string
  | JSONDecodeError
  | TransportError string
  | UnicodeEncodeError

text \<open>\<open>str(e)\<close> of a \<open>KotApiError\<close>: the argument given to \<open>super().__init__\<close>.\<close>

definition KotApiError_str :: "int \<Rightarrow> string \<Rightarrow> string" where
  "KotApiError_str status message = ''['' @ str_int status @ ''] '' @ message"

section \<open>The client\<close>

definition BASE_URL :: string where
  "BASE_URL = ''https://api.kingtime.jp/v1.0''"

record KingOfTimeClient =
  c_token :: string
  c_base_url :: string
  c_headers :: "(string \<times> string) list"
  c_timeout :: nat

text \<open>
  A string is held as its UTF-8 bytes, so it is ASCII when every byte is below 128.
\<close>

definition is_ascii :: "string \<Rightarrow> bool" where
  "is_ascii s = list_all (\<lambda>c. (of_char c :: nat) < 128) s"

text \<open>
  \<open>__init__\<close>. \<open>httpx.AsyncClient\<close> encodes the names and the values of the headers it is
  given as ASCII, and raises \<open>UnicodeEncodeError\<close> for one that is not: no client comes
  to be for an access token outside ASCII.
\<close>

definition KingOfTimeClient_init :: "string \<Rightarrow> exn + KingOfTimeClient" where
  "KingOfTimeClient_init access_token =
     (let self =
        \<lparr>c_token = access_token,
         c_base_url = BASE_URL,
         c_headers = [(''Authorization'', ''Bearer '' @ access_token),
                      (''Content-Type'', ''application/json'')],
         c_timeout = 30\<rparr>
      in if list_all (\<lambda>(name, val). is_ascii name \<and> is_ascii val) (c_headers self)
         then Inr self
         else Inl UnicodeEncodeError)"

text \<open>
  Effects are recorded in order in a trace: a client constructed, a request handed to the
  HTTP library, a warning logged with its wait, \<open>asyncio.sleep(wait)\<close>, the client closed.
\<close>

datatype event =
    Constructed KingOfTimeClient
  | Requested request
  | Warned nat
  | Slept nat
  | Closed

type_synonym trace = "event list"

fun sent :: "trace \<Rightarrow> request list" where
  "sent [] = []"
| "sent (Requested r # t) = r # sent t"
| "sent (e # t) = sent t"

fun sleeps :: "trace \<Rightarrow> nat list" where
  "sleeps [] = []"
| "sleeps (Slept n # t) = n # sleeps t"
| "sleeps (e # t) = sleeps t"

fun constructed :: "trace \<Rightarrow> KingOfTimeClient list" where
  "constructed [] = []"
| "constructed (Constructed c # t) = c # constructed t"
| "constructed (e # t) = constructed t"

text \<open>
  The upstream API with the HTTP library in front of it: given the requests issued so far,
  the last one being the current one, it answers with a response or the library raises.
\<close>

type_synonym upstream = "request list \<Rightarrow> exn + response"

text \<open>
  The \<open>for attempt in range(max_retries)\<close> loop of \<open>_request\<close>, over the attempts that
  are left; the statement after the loop is the case of no attempt left.
\<close>

fun request_loop ::
  "upstream \<Rightarrow> request \<Rightarrow> nat list \<Rightarrow> trace \<Rightarrow> (exn + pyval) \<times> trace" where
  "request_loop up rq [] t =
     (Inl (KotApiError 429 ''Rate limit exceeded after retries''), t)"
| "request_loop up rq (attempt # rest) t =
     (let t1 = t @ [Requested rq] in
      case up (sent t1) of
        Inl fault \<Rightarrow> (Inl fault, t1)
      | Inr resp \<Rightarrow>
          if status_code resp = 429 then
            (let wait = 2 ^ attempt in
             request_loop up rq rest (t1 @ [Warned wait, Slept wait]))
          else if status_code resp \<ge> 400 then
            (Inl (KotApiError (status_code resp) (resp_text resp)), t1)
          else if status_code resp = 204 then
            (Inr PNone, t1)
          else
            (case resp_json resp of
               None \<Rightarrow> (Inl JSONDecodeError, t1)
             | Some v \<Rightarrow> (Inr v, t1)))"

definition client_request ::
  "KingOfTimeClient \<Rightarrow> upstream \<Rightarrow> string \<Rightarrow> string \<Rightarrow> (string \<times> pyval) list option \<Rightarrow>
   (string \<times> pyval) list option \<Rightarrow> int \<Rightarrow> trace \<Rightarrow> (exn + pyval) \<times> trace" where
  "client_request self up method path params json_body max_retries t =
     request_loop up
       \<lparr>req_method = method, req_path = path, req_params = params, req_json = json_body\<rparr>
       [0 ..< nat max_retries] t"

text \<open>The helpers call \<open>_request\<close> without \<open>max_retries\<close>, so with its default 3.\<close>

definition client_get ::
  "KingOfTimeClient \<Rightarrow> upstream \<Rightarrow> string \<Rightarrow> (string \<times> pyval) list \<Rightarrow> trace \<Rightarrow>
   (exn + pyval) \<times> trace" where
  "client_get self up path kwargs t =
     (let filtered = filter (\<lambda>(k, v). v \<noteq> PNone) kwargs in
      client_request self up ''GET'' path
        (if filtered = [] then None else Some filtered) None 3 t)"

definition client_post ::
  "KingOfTimeClient \<Rightarrow> upstream \<Rightarrow> string \<Rightarrow> (string \<times> pyval) list \<Rightarrow> trace \<Rightarrow>
   (exn + pyval) \<times> trace" where
  "client_post self up path body t =
     client_request self up ''POST'' path None (Some body) 3 t"

definition client_put ::
  "KingOfTimeClient \<Rightarrow> upstream \<Rightarrow> string \<Rightarrow> (string \<times> pyval) list \<Rightarrow> trace \<Rightarrow>
   (exn + pyval) \<times> trace" where
  "client_put self up path body t =
     client_request self up ''PUT'' path None (Some body) 3 t"

definition client_delete ::
  "KingOfTimeClient \<Rightarrow> upstream \<Rightarrow> string \<Rightarrow> trace \<Rightarrow> (exn + pyval) \<times> trace" where
  "client_delete self up path t =
     client_request self up ''DELETE'' path None None 3 t"

subsection \<open>Endpoint methods\<close>

definition client_get_company ::
  "KingOfTimeClient \<Rightarrow> upstream \<Rightarrow> trace \<Rightarrow> (exn + pyval) \<times> trace" where
  "client_get_company self up t = client_get self up ''/company'' [] t"

definition client_list_administrators ::
  "KingOfTimeClient \<Rightarrow> upstream \<Rightarrow> trace \<Rightarrow> (exn + pyval) \<times> trace" where
  "client_list_administrators self up t = client_get self up ''/administrators'' [] t"

definition client_list_employees ::
  "KingOfTimeClient \<Rightarrow> upstream \<Rightarrow> string option \<Rightarrow> trace \<Rightarrow> (exn + pyval) \<times> trace" where
  "client_list_employees self up division_code t =
     client_get self up ''/employees'' [(''divisionCode'', opt division_code)] t"

definition client_get_employee ::
  "KingOfTimeClient \<Rightarrow> upstream \<Rightarrow> string \<Rightarrow> trace \<Rightarrow> (exn + pyval) \<times> trace" where
  "client_get_employee self up employee_code t =
     client_get self up (''/employees/'' @ employee_code) [] t"

definition client_list_divisions ::
  "KingOfTimeClient \<Rightarrow> upstream \<Rightarrow> trace \<Rightarrow> (exn + pyval) \<times> trace" where
  "client_list_divisions self up t = client_get self up ''/divisions'' [] t"

definition client_list_working_types ::
  "KingOfTimeClient \<Rightarrow> upstream \<Rightarrow> trace \<Rightarrow> (exn + pyval) \<times> trace" where
  "client_list_working_types self up t = client_get self up ''/working-types'' [] t"

definition client_list_employee_groups ::
  "KingOfTimeClient \<Rightarrow> upstream \<Rightarrow> trace \<Rightarrow> (exn + pyval) \<times> trace" where
  "client_list_employee_groups self up t = client_get self up ''/employee-groups'' [] t"

definition client_get_daily_workings ::
  "KingOfTimeClient \<Rightarrow> upstream \<Rightarrow> string option \<Rightarrow> string option \<Rightarrow> string option \<Rightarrow>
   string option \<Rightarrow> trace \<Rightarrow> (exn + pyval) \<times> trace" where
  "client_get_daily_workings self up date start_date end_date division_code t =
     client_get self up ''/daily-workings''
       [(''date'', opt date),
        (''startDate'', opt start_date),
        (''endDate'', opt end_date),
        (''divisionCode'', opt division_code)] t"

definition client_get_monthly_workings ::
  "KingOfTimeClient \<Rightarrow> upstream \<Rightarrow> string \<Rightarrow> string option \<Rightarrow> trace \<Rightarrow>
   (exn + pyval) \<times> trace" where
  "client_get_monthly_workings self up date division_code t =
     client_get self up (''/monthly-workings/'' @ date)
       [(''divisionCode'', opt division_code)] t"

definition client_get_yearly_holidays ::
  "KingOfTimeClient \<Rightarrow> upstream \<Rightarrow> string \<Rightarrow> int \<Rightarrow> trace \<Rightarrow> (exn + pyval) \<times> trace" where
  "client_get_yearly_holidays self up type_code year t =
     client_get self up
       (''/yearly-workings/holidays/'' @ type_code @ ''/'' @ str_int year) [] t"

text \<open>
  \<open>if date:\<close> and \<open>if time:\<close> test the truth value of a \<open>str | None\<close>: \<open>None\<close> and the
  empty string are both false. The keys set are not in the body yet, so setting them
  appends them.
\<close>

definition client_record_time ::
  "KingOfTimeClient \<Rightarrow> upstream \<Rightarrow> string \<Rightarrow> int \<Rightarrow> string option \<Rightarrow> string option \<Rightarrow>
   trace \<Rightarrow> (exn + pyval) \<times> trace" where
  "client_record_time self up employee_key record_type date time t =
     (let body0 = [(''type'', PInt record_type)];
          body1 = (if truthy (opt date) then body0 @ [(''date'', opt date)] else body0);
          body2 = (if truthy (opt time) then body1 @ [(''time'', opt time)] else body1)
      in client_post self up (''/daily-workings/timerecord/'' @ employee_key) body2 t)"

definition client_get_schedule_requests ::
  "KingOfTimeClient \<Rightarrow> upstream \<Rightarrow> string \<Rightarrow> trace \<Rightarrow> (exn + pyval) \<times> trace" where
  "client_get_schedule_requests self up date t =
     client_get self up (''/schedule-requests/'' @ date) [] t"

definition client_approve_request ::
  "KingOfTimeClient \<Rightarrow> upstream \<Rightarrow> string \<Rightarrow> trace \<Rightarrow> (exn + pyval) \<times> trace" where
  "client_approve_request self up request_id t =
     client_put self up (''/requests/'' @ request_id) [(''action'', PStr ''approve'')] t"

definition client_reject_request ::
  "KingOfTimeClient \<Rightarrow> upstream \<Rightarrow> string \<Rightarrow> string \<Rightarrow> trace \<Rightarrow> (exn + pyval) \<times> trace" where
  "client_reject_request self up request_id reason t =
     (let body0 = [(''action'', PStr ''reject'')];
          body1 = (if reason \<noteq> [] then body0 @ [(''reason'', PStr reason)] else body0)
      in client_put self up (''/requests/'' @ request_id) body1 t)"

definition client_check_token ::
  "KingOfTimeClient \<Rightarrow> upstream \<Rightarrow> trace \<Rightarrow> (exn + pyval) \<times> trace" where
  "client_check_token self up t =
     client_get self up (''/tokens/'' @ c_token self @ ''/available'') [] t"

section \<open>The tool adapter\<close>

text \<open>\<open>os.environ\<close>.\<close>

type_synonym environ = "string \<rightharpoonup> string"

definition missing_token_message :: string where
  "missing_token_message =
     ''KOT_ACCESS_TOKEN '' @ [CHR 0xE3, CHR 0x81, CHR 0x8C, CHR 0xE6, CHR 0x9C, CHR 0xAA,
       CHR 0xE8, CHR 0xA8, CHR 0xAD, CHR 0xE5, CHR 0xAE, CHR 0x9A, CHR 0xE3, CHR 0x81, CHR 0xA7,
       CHR 0xE3, CHR 0x81, CHR 0x99, CHR 0xE3, CHR 0x80, CHR 0x82]
     @ ''King of Time '' @ [CHR 0xE7, CHR 0xAE, CHR 0xA1, CHR 0xE7, CHR 0x90, CHR 0x86,
       CHR 0xE7, CHR 0x94, CHR 0xBB, CHR 0xE9, CHR 0x9D, CHR 0xA2] @ '' ''
     @ [CHR 0xE2, CHR 0x86, CHR 0x92] @ '' ''
     @ [CHR 0xE8, CHR 0xA8, CHR 0xAD, CHR 0xE5, CHR 0xAE, CHR 0x9A] @ '' ''
     @ [CHR 0xE2, CHR 0x86, CHR 0x92] @ '' ''
     @ [CHR 0xE5, CHR 0xA4, CHR 0x96, CHR 0xE9, CHR 0x83, CHR 0xA8, CHR 0xE3, CHR 0x82, CHR 0xB5,
       CHR 0xE3, CHR 0x83, CHR 0xBC, CHR 0xE3, CHR 0x83, CHR 0x93, CHR 0xE3, CHR 0x82, CHR 0xB9,
       CHR 0xE9, CHR 0x80, CHR 0xA3, CHR 0xE6, CHR 0x90, CHR 0xBA] @ '' ''
     @ [CHR 0xE2, CHR 0x86, CHR 0x92] @ '' WebAPI ''
     @ [CHR 0xE3, CHR 0x81, CHR 0xA7, CHR 0xE5, CHR 0x8F, CHR 0x96, CHR 0xE5, CHR 0xBE, CHR 0x97,
       CHR 0xE3, CHR 0x81, CHR 0x97, CHR 0xE3, CHR 0x81, CHR 0xA6, CHR 0xE3, CHR 0x81, CHR 0x8F,
       CHR 0xE3, CHR 0x81, CHR 0xA0, CHR 0xE3, CHR 0x81, CHR 0x95, CHR 0xE3, CHR 0x81, CHR 0x84,
       CHR 0xE3, CHR 0x80, CHR 0x82]"

text \<open>
  \<open>_get_client\<close>: \<open>os.environ.get("KOT_ACCESS_TOKEN", "")\<close>, then \<open>if not token\<close>, then
  \<open>return KingOfTimeClient(token)\<close>, whose exception is not caught.
\<close>

definition get_client :: "environ \<Rightarrow> trace \<Rightarrow> (exn + KingOfTimeClient) \<times> trace" where
  "get_client env t =
     (let token = (case env ''KOT_ACCESS_TOKEN'' of None \<Rightarrow> [] | Some v \<Rightarrow> v) in
      if token = [] then (Inl (RuntimeError missing_token_message), t)
      else (case KingOfTimeClient_init token of
              Inl e \<Rightarrow> (Inl e, t)
            | Inr c \<Rightarrow> (Inr c, t @ [Constructed c])))"

text \<open>
  \<open>_fmt\<close> is \<open>json.dumps(data, ensure_ascii=False, indent=2)\<close>; the standard library's
  \<open>json.dumps\<close> with these arguments is the parameter \<open>dumps\<close>.
\<close>

definition fmt :: "(pyval \<Rightarrow> string) \<Rightarrow> pyval \<Rightarrow> string" where
  "fmt dumps data = dumps data"

text \<open>The literals of \<open>server.py\<close>, as UTF-8.\<close>

definition error_prefix :: string where
  "error_prefix =
     [CHR 0xE3, CHR 0x82, CHR 0xA8, CHR 0xE3, CHR 0x83, CHR 0xA9, CHR 0xE3, CHR 0x83, CHR 0xBC]
     @ '': ''"

definition approved_text :: string where
  "approved_text =
     [CHR 0xE6, CHR 0x89, CHR 0xBF, CHR 0xE8, CHR 0xAA, CHR 0x8D, CHR 0xE3, CHR 0x81, CHR 0x97,
      CHR 0xE3, CHR 0x81, CHR 0xBE, CHR 0xE3, CHR 0x81, CHR 0x97, CHR 0xE3, CHR 0x81, CHR 0x9F]"

definition rejected_text :: string where
  "rejected_text =
     [CHR 0xE6, CHR 0xA3, CHR 0x84, CHR 0xE5, CHR 0x8D, CHR 0xB4, CHR 0xE3, CHR 0x81, CHR 0x97,
      CHR 0xE3, CHR 0x81, CHR 0xBE, CHR 0xE3, CHR 0x81, CHR 0x97, CHR 0xE3, CHR 0x81, CHR 0x9F]"

text \<open>
  The block every tool has after \<open>client = _get_client()\<close>:
  \<^verbatim>\<open>
    try:
        result = await client.<method>(...)
        return <render>(result)
    except KotApiError as e:
        return f"<error_prefix>{e}"
    finally:
        await client.close()
  \<close>
  applied to the outcome of the client method.
\<close>

definition tool_body ::
  "(pyval \<Rightarrow> string) \<Rightarrow> (exn + pyval) \<times> trace \<Rightarrow> (exn + string) \<times> trace" where
  "tool_body render outcome =
     (case outcome of
        (Inr result, t) \<Rightarrow> (Inr (render result), t @ [Closed])
      | (Inl (KotApiError status message), t) \<Rightarrow>
          (Inr (error_prefix @ KotApiError_str status message), t @ [Closed])
      | (Inl e, t) \<Rightarrow> (Inl e, t @ [Closed]))"

text \<open>
  A tool: \<open>client = _get_client()\<close> stands before the \<open>try\<close>, so what it raises leaves
  the tool as it is.
\<close>

definition tool ::
  "environ \<Rightarrow> (pyval \<Rightarrow> string) \<Rightarrow> (KingOfTimeClient \<Rightarrow> trace \<Rightarrow> (exn + pyval) \<times> trace) \<Rightarrow>
   trace \<Rightarrow> (exn + string) \<times> trace" where
  "tool env render method t =
     (case get_client env t of
        (Inl e, t1) \<Rightarrow> (Inl e, t1)
      | (Inr client, t1) \<Rightarrow> tool_body render (method client t1))"

subsection \<open>The tools\<close>

definition get_company ::
  "environ \<Rightarrow> upstream \<Rightarrow> (pyval \<Rightarrow> string) \<Rightarrow>
   trace \<Rightarrow> (exn + string) \<times> trace" where
  "get_company env up dumps t =
     tool env (fmt dumps)
       (\<lambda>client. client_get_company client up) t"

definition list_administrators ::
  "environ \<Rightarrow> upstream \<Rightarrow> (pyval \<Rightarrow> string) \<Rightarrow>
   trace \<Rightarrow> (exn + string) \<times> trace" where
  "list_administrators env up dumps t =
     tool env (fmt dumps)
       (\<lambda>client. client_list_administrators client up) t"

definition list_employees ::
  "environ \<Rightarrow> upstream \<Rightarrow> (pyval \<Rightarrow> string) \<Rightarrow>
   string option \<Rightarrow> trace \<Rightarrow> (exn + string) \<times> trace" where
  "list_employees env up dumps division_code t =
     tool env (fmt dumps)
       (\<lambda>client. client_list_employees client up division_code) t"

definition get_employee ::
  "environ \<Rightarrow> upstream \<Rightarrow> (pyval \<Rightarrow> string) \<Rightarrow>
   string \<Rightarrow> trace \<Rightarrow> (exn + string) \<times> trace" where
  "get_employee env up dumps employee_code t =
     tool env (fmt dumps)
       (\<lambda>client. client_get_employee client up employee_code) t"

definition list_divisions ::
  "environ \<Rightarrow> upstream \<Rightarrow> (pyval \<Rightarrow> string) \<Rightarrow>
   trace \<Rightarrow> (exn + string) \<times> trace" where
  "list_divisions env up dumps t =
     tool env (fmt dumps)
       (\<lambda>client. client_list_divisions client up) t"

definition list_working_types ::
  "environ \<Rightarrow> upstream \<Rightarrow> (pyval \<Rightarrow> string) \<Rightarrow>
   trace \<Rightarrow> (exn + string) \<times> trace" where
  "list_working_types env up dumps t =
     tool env (fmt dumps)
       (\<lambda>client. client_list_working_types client up) t"

definition list_employee_groups ::
  "environ \<Rightarrow> upstream \<Rightarrow> (pyval \<Rightarrow> string) \<Rightarrow>
   trace \<Rightarrow> (exn + string) \<times> trace" where
  "list_employee_groups env up dumps t =
     tool env (fmt dumps)
       (\<lambda>client. client_list_employee_groups client up) t"

definition get_daily_workings ::
  "environ \<Rightarrow> upstream \<Rightarrow> (pyval \<Rightarrow> string) \<Rightarrow>
   string option \<Rightarrow> string option \<Rightarrow> string option \<Rightarrow> string option \<Rightarrow> trace \<Rightarrow> (exn + string) \<times> trace" where
  "get_daily_workings env up dumps date start_date end_date division_code t =
     tool env (fmt dumps)
       (\<lambda>client. client_get_daily_workings client up date start_date end_date division_code) t"

definition get_monthly_workings ::
  "environ \<Rightarrow> upstream \<Rightarrow> (pyval \<Rightarrow> string) \<Rightarrow>
   string \<Rightarrow> string option \<Rightarrow> trace \<Rightarrow> (exn + string) \<times> trace" where
  "get_monthly_workings env up dumps date division_code t =
     tool env (fmt dumps)
       (\<lambda>client. client_get_monthly_workings client up date division_code) t"

definition get_yearly_holidays ::
  "environ \<Rightarrow> upstream \<Rightarrow> (pyval \<Rightarrow> string) \<Rightarrow>
   string \<Rightarrow> int \<Rightarrow> trace \<Rightarrow> (exn + string) \<times> trace" where
  "get_yearly_holidays env up dumps type_code year t =
     tool env (fmt dumps)
       (\<lambda>client. client_get_yearly_holidays client up type_code year) t"

definition record_time ::
  "environ \<Rightarrow> upstream \<Rightarrow> (pyval \<Rightarrow> string) \<Rightarrow>
   string \<Rightarrow> int \<Rightarrow> string option \<Rightarrow> string option \<Rightarrow> trace \<Rightarrow> (exn + string) \<times> trace" where
  "record_time env up dumps employee_key record_type date time t =
     tool env (fmt dumps)
       (\<lambda>client. client_record_time client up employee_key record_type date time) t"

definition get_schedule_requests ::
  "environ \<Rightarrow> upstream \<Rightarrow> (pyval \<Rightarrow> string) \<Rightarrow>
   string \<Rightarrow> trace \<Rightarrow> (exn + string) \<times> trace" where
  "get_schedule_requests env up dumps date t =
     tool env (fmt dumps)
       (\<lambda>client. client_get_schedule_requests client up date) t"

definition approve_request ::
  "environ \<Rightarrow> upstream \<Rightarrow> (pyval \<Rightarrow> string) \<Rightarrow>
   string \<Rightarrow> trace \<Rightarrow> (exn + string) \<times> trace" where
  "approve_request env up dumps request_id t =
     tool env (\<lambda>result. if truthy result then fmt dumps result else approved_text)
       (\<lambda>client. client_approve_request client up request_id) t"

definition reject_request ::
  "environ \<Rightarrow> upstream \<Rightarrow> (pyval \<Rightarrow> string) \<Rightarrow>
   string \<Rightarrow> string \<Rightarrow> trace \<Rightarrow> (exn + string) \<times> trace" where
  "reject_request env up dumps request_id reason t =
     tool env (\<lambda>result. if truthy result then fmt dumps result else rejected_text)
       (\<lambda>client. client_reject_request client up request_id reason) t"

definition check_token ::
  "environ \<Rightarrow> upstream \<Rightarrow> (pyval \<Rightarrow> string) \<Rightarrow>
   trace \<Rightarrow> (exn + string) \<times> trace" where
  "check_token env up dumps t =
     tool env (fmt dumps)
       (\<lambda>client. client_check_token client up) t"

text \<open>
  An invocation names a registered tool and gives its declared arguments; the two
  dispatchers say which tool runs and which client method that tool calls.
\<close>

datatype tool_call =
    Get_company
  | List_administrators
  | List_employees "string option"
  | Get_employee string
  | List_divisions
  | List_working_types
  | List_employee_groups
  | Get_daily_workings "string option" "string option" "string option" "string option"
  | Get_monthly_workings string "string option"
  | Get_yearly_holidays string int
  | Record_time string int "string option" "string option"
  | Get_schedule_requests string
  | Approve_request string
  | Reject_request string string
  | Check_token

fun call_tool ::
  "environ \<Rightarrow> upstream \<Rightarrow> (pyval \<Rightarrow> string) \<Rightarrow>
   tool_call \<Rightarrow> trace \<Rightarrow>
   (exn + string) \<times> trace" where
  "call_tool env up dumps Get_company t = get_company env up dumps t"
| "call_tool env up dumps List_administrators t = list_administrators env up dumps t"
| "call_tool env up dumps (List_employees dc) t = list_employees env up dumps dc t"
| "call_tool env up dumps (Get_employee code) t = get_employee env up dumps code t"
| "call_tool env up dumps List_divisions t = list_divisions env up dumps t"
| "call_tool env up dumps List_working_types t = list_working_types env up dumps t"
| "call_tool env up dumps List_employee_groups t = list_employee_groups env up dumps t"
| "call_tool env up dumps (Get_daily_workings d s e dc) t =
     get_daily_workings env up dumps d s e dc t"
| "call_tool env up dumps (Get_monthly_workings d dc) t =
     get_monthly_workings env up dumps d dc t"
| "call_tool env up dumps (Get_yearly_holidays tc y) t =
     get_yearly_holidays env up dumps tc y t"
| "call_tool env up dumps (Record_time k ty d tm) t = record_time env up dumps k ty d tm t"
| "call_tool env up dumps (Get_schedule_requests d) t =
     get_schedule_requests env up dumps d t"
| "call_tool env up dumps (Approve_request rid) t = approve_request env up dumps rid t"
| "call_tool env up dumps (Reject_request rid reason) t =
     reject_request env up dumps rid reason t"
| "call_tool env up dumps Check_token t = check_token env up dumps t"

fun client_call ::
  "KingOfTimeClient \<Rightarrow> upstream \<Rightarrow> tool_call \<Rightarrow> trace \<Rightarrow> (exn + pyval) \<times> trace" where
  "client_call c up Get_company t = client_get_company c up t"
| "client_call c up List_administrators t = client_list_administrators c up t"
| "client_call c up (List_employees dc) t = client_list_employees c up dc t"
| "client_call c up (Get_employee code) t = client_get_employee c up code t"
| "client_call c up List_divisions t = client_list_divisions c up t"
| "client_call c up List_working_types t = client_list_working_types c up t"
| "client_call c up List_employee_groups t = client_list_employee_groups c up t"
| "client_call c up (Get_daily_workings d s e dc) t =
     client_get_daily_workings c up d s e dc t"
| "client_call c up (Get_monthly_workings d dc) t = client_get_monthly_workings c up d dc t"
| "client_call c up (Get_yearly_holidays tc y) t = client_get_yearly_holidays c up tc y t"
| "client_call c up (Record_time k ty d tm) t = client_record_time c up k ty d tm t"
| "client_call c up (Get_schedule_requests d) t = client_get_schedule_requests c up d t"
| "client_call c up (Approve_request rid) t = client_approve_request c up rid t"
| "client_call c up (Reject_request rid reason) t = client_reject_request c up rid reason t"
| "client_call c up Check_token t = client_check_token c up t"

section \<open>Notions used to state the properties\<close>

abbreviation (input) descriptor ::
  "string \<Rightarrow> string \<Rightarrow> (string \<times> pyval) list option \<Rightarrow> (string \<times> pyval) list option \<Rightarrow>
   request" where
  "descriptor method path params json_body \<equiv>
     \<lparr>req_method = method, req_path = path, req_params = params, req_json = json_body\<rparr>"

text \<open>One round of the loop that met a 429: the request, the warning, the sleep.\<close>

definition backoff :: "request \<Rightarrow> nat \<Rightarrow> trace" where
  "backoff rq attempt = [Requested rq, Warned (2 ^ attempt), Slept (2 ^ attempt)]"

text \<open>
  \<open>limited up t rq j\<close>: starting after the trace \<open>t\<close>, the first \<open>j\<close> sendings of \<open>rq\<close> are
  each answered with status 429.
\<close>

definition limited :: "upstream \<Rightarrow> trace \<Rightarrow> request \<Rightarrow> nat \<Rightarrow> bool" where
  "limited up t rq j =
     list_all (\<lambda>i. case up (sent t @ replicate (Suc i) rq) of
                      Inl fault \<Rightarrow> False
                    | Inr resp \<Rightarrow> status_code resp = 429) [0 ..< j]"

text \<open>The retries in a trace: the requests sent after the first one.\<close>

definition retries :: "trace \<Rightarrow> nat" where
  "retries t = length (sent t) - 1"

text \<open>The entries of the query mapping a request goes out with.\<close>

definition query_items :: "request \<Rightarrow> (string \<times> pyval) set" where
  "query_items r = (case req_params r of None \<Rightarrow> {} | Some ps \<Rightarrow> set ps)"

text \<open>The entry an optional string argument contributes when it is given.\<close>

fun optional :: "string \<Rightarrow> string option \<Rightarrow> (string \<times> pyval) list" where
  "optional k None = []"
| "optional k (Some s) = [(k, PStr s)]"

text \<open>How a tool turns the result of its client method into text.\<close>

fun render :: "(pyval \<Rightarrow> string) \<Rightarrow> tool_call \<Rightarrow> pyval \<Rightarrow> string" where
  "render dumps (Approve_request rid) result =
     (if truthy result then fmt dumps result else approved_text)"
| "render dumps (Reject_request rid reason) result =
     (if truthy result then fmt dumps result else rejected_text)"
| "render dumps tc result = fmt dumps result"

text \<open>
  The exceptions the tools catch, and text that holds no line break (neither a line feed
  nor a carriage return).
\<close>

fun is_api_error :: "exn \<Rightarrow> bool" where
  "is_api_error (KotApiError status message) = True"
| "is_api_error e = False"

definition one_line :: "string \<Rightarrow> bool" where
  "one_line s = (CHR 0x0A \<notin> set s \<and> CHR 0x0D \<notin> set s)"

text \<open>The request \<open>approve_request\<close> sends.\<close>

abbreviation (input) approval :: "string \<Rightarrow> request" where
  "approval request_id \<equiv>
     descriptor ''PUT'' (''/requests/'' @ request_id) None (Some [(''action'', PStr ''approve'')])"

subsection \<open>Concrete inputs\<close>

text \<open>An upstream that answers the n-th request with the n-th response of a script.\<close>

definition replies :: "response list \<Rightarrow> upstream" where
  "replies rs h =
     (if h \<noteq> [] \<and> length h \<le> length rs then Inr (rs ! (length h - 1))
      else Inl (TransportError ''connection refused''))"

definition reply :: "int \<Rightarrow> string \<Rightarrow> pyval option \<Rightarrow> response" where
  "reply status body parsed = \<lparr>status_code = status, resp_text = body, resp_json = parsed\<rparr>"

definition too_many :: response where
  "too_many = reply 429 ''Too Many Requests'' None"

definition a_client :: KingOfTimeClient where
  "a_client =
     \<lparr>c_token = ''secret'',
      c_base_url = BASE_URL,
      c_headers = [(''Authorization'', ''Bearer secret''),
                   (''Content-Type'', ''application/json'')],
      c_timeout = 30\<rparr>"

definition not_found :: response where
  "not_found = reply 404 ''Not Found'' None"

definition not_json :: response where
  "not_json = reply 200 ''<html>maintenance</html>'' None"

definition no_content :: response where
  "no_content = reply 204 [] None"

definition ok_company :: response where
  "ok_company =
     reply 200
       (''{'' @ [CHR 0x22] @ ''companyCode'' @ [CHR 0x22] @ '': ''
          @ [CHR 0x22] @ ''c1'' @ [CHR 0x22] @ ''}'')
       (Some (PDict [(''companyCode'', PStr ''c1'')]))"

definition ok_recorded :: response where
  "ok_recorded = reply 201 ''{}'' (Some (PDict []))"

definition no_token :: environ where
  "no_token = Map.empty"

definition empty_token :: environ where
  "empty_token = [''KOT_ACCESS_TOKEN'' \<mapsto> []]"

definition with_token :: environ where
  "with_token = [''KOT_ACCESS_TOKEN'' \<mapsto> ''secret'']"

text \<open>
  What \<open>json.dumps\<close> gives on \<open>None\<close>, booleans, integers and empty containers; the
  examples serialise no other value.
\<close>

definition dumps_small :: "pyval \<Rightarrow> string" where
  "dumps_small v =
     (case v of
        PNone \<Rightarrow> ''null''
      | PBool b \<Rightarrow> (if b then ''true'' else ''false'')
      | PInt i \<Rightarrow> str_int i
      | PList [] \<Rightarrow> ''[]''
      | PDict [] \<Rightarrow> ''{}''
      | _ \<Rightarrow> [])"

definition server_error :: response where
  "server_error = reply 500 (''line 1'' @ [CHR 0x0A] @ ''line 2'') None"

definition ok_false :: response where
  "ok_false = reply 200 ''false'' (Some (PBool False))"

definition ok_true :: response where
  "ok_true = reply 200 ''true'' (Some (PBool True))"

section \<open>The retry loop\<close>

lemma sent_append: "sent (t @ u) = sent t @ sent u"
  by (induction t rule: sent.induct) simp_all

lemma sleeps_append: "sleeps (t @ u) = sleeps t @ sleeps u"
  by (induction t rule: sleeps.induct) simp_all

lemma sent_backoff: "sent (backoff rq a) = [rq]"
  by (simp add: backoff_def)

lemma sent_backoffs: "sent (concat (map (backoff rq) as)) = replicate (length as) rq"
  by (induction as) (simp_all add: backoff_def)

lemma sleeps_backoffs: "sleeps (concat (map (backoff rq) as)) = map (\<lambda>k. 2 ^ k) as"
  by (induction as) (simp_all add: backoff_def)

lemma limited_Suc:
  "limited up t rq (Suc j) \<longleftrightarrow>
     (case up (sent t @ [rq]) of Inl fault \<Rightarrow> False | Inr resp \<Rightarrow> status_code resp = 429)
     \<and> limited up (t @ backoff rq a) rq j"
proof -
  define P where "P = (\<lambda>i. case up (sent t @ replicate (Suc i) rq) of
                      Inl fault \<Rightarrow> False
                    | Inr resp \<Rightarrow> status_code resp = 429)"
  have upt: "[0 ..< Suc j] = 0 # map Suc [0 ..< j]"
    by (simp add: upt_conv_Cons map_Suc_upt del: upt_Suc)
  have shift: "sent (t @ backoff rq a) @ replicate (Suc i) rq
      = sent t @ replicate (Suc (Suc i)) rq" for i
    by (simp add: sent_append sent_backoff)
  have "limited up t rq (Suc j) \<longleftrightarrow> list_all P [0 ..< Suc j]"
    unfolding limited_def P_def ..
  also have "\<dots> \<longleftrightarrow> P 0 \<and> list_all (\<lambda>i. P (Suc i)) [0 ..< j]"
    unfolding upt by (simp add: list.pred_map comp_def del: upt_Suc)
  also have "list_all (\<lambda>i. P (Suc i)) [0 ..< j] \<longleftrightarrow> limited up (t @ backoff rq a) rq j"
    unfolding limited_def P_def shift ..
  finally show ?thesis by (simp add: P_def)
qed

text \<open>While the answers are 429 the loop goes on, leaving one round per attempt.\<close>

lemma loop_limited:
  "limited up t rq j \<Longrightarrow> j \<le> length as \<Longrightarrow>
   request_loop up rq as t =
   request_loop up rq (drop j as) (t @ concat (map (backoff rq) (take j as)))"
proof (induction j arbitrary: as t)
  case 0
  then show ?case by simp
next
  case (Suc j)
  then obtain a rest where as: "as = a # rest" by (cases as) auto
  from Suc.prems(1) obtain resp
    where r: "up (sent t @ [rq]) = Inr resp" "status_code resp = 429"
      and lim: "limited up (t @ backoff rq a) rq j"
    by (auto simp: limited_Suc [of up t rq j a] split: sum.splits)
  have "request_loop up rq as t = request_loop up rq rest (t @ backoff rq a)"
    using r by (simp add: as sent_append backoff_def Let_def)
  also have "\<dots> = request_loop up rq (drop j rest)
      ((t @ backoff rq a) @ concat (map (backoff rq) (take j rest)))"
    using Suc.IH [OF lim] Suc.prems(2) by (simp add: as)
  finally show ?case by (simp add: as)
qed

text \<open>The first answer that is not a 429 ends the loop, in one of its three ways.\<close>

lemma loop_at:
  assumes "limited up t rq j" and "j < length as"
    and "up (sent t @ replicate (Suc j) rq) = Inr resp" and "status_code resp \<noteq> 429"
  shows "request_loop up rq as t =
    (let t1 = t @ concat (map (backoff rq) (take j as)) @ [Requested rq] in
     if status_code resp \<ge> 400 then (Inl (KotApiError (status_code resp) (resp_text resp)), t1)
     else if status_code resp = 204 then (Inr PNone, t1)
     else (case resp_json resp of None \<Rightarrow> (Inl JSONDecodeError, t1) | Some v \<Rightarrow> (Inr v, t1)))"
proof -
  obtain a rest where d: "drop j as = a # rest"
    using assms(2) by (cases "drop j as") auto
  have s: "sent ((t @ concat (map (backoff rq) (take j as))) @ [Requested rq])
      = sent t @ replicate (Suc j) rq"
    using assms(2) by (simp add: sent_append sent_backoffs min_def replicate_append_same)
  have "request_loop up rq as t =
      request_loop up rq (a # rest) (t @ concat (map (backoff rq) (take j as)))"
    using loop_limited [OF assms(1), of as] assms(2) d by simp
  also have "\<dots> = (let t1 = t @ concat (map (backoff rq) (take j as)) @ [Requested rq] in
     if status_code resp \<ge> 400 then (Inl (KotApiError (status_code resp) (resp_text resp)), t1)
     else if status_code resp = 204 then (Inr PNone, t1)
     else (case resp_json resp of None \<Rightarrow> (Inl JSONDecodeError, t1) | Some v \<Rightarrow> (Inr v, t1)))"
    using s assms(3,4) by (simp add: Let_def)
  finally show ?thesis .
qed

text \<open>
  When every attempt is answered with status 429 the loop runs through all its attempts,
  \<open>max_retries\<close> of them (none when \<open>max_retries\<close> is not positive), each followed by
  the warning and the sleep of \<open>2 ^ attempt\<close> seconds, and then raises the rate-limit
  error.
\<close>

lemma rate_limit_exhausted:
  assumes "limited up t (descriptor method path params json_body) (nat max_retries)"
  shows "client_request self up method path params json_body max_retries t =
      (Inl (KotApiError 429 ''Rate limit exceeded after retries''),
       t @ concat (map (backoff (descriptor method path params json_body))
                     [0 ..< nat max_retries]))
    \<and> sent (snd (client_request self up method path params json_body max_retries t)) =
      sent t @ replicate (nat max_retries) (descriptor method path params json_body)
    \<and> sleeps (snd (client_request self up method path params json_body max_retries t)) =
      sleeps t @ map (\<lambda>attempt. 2 ^ attempt) [0 ..< nat max_retries]"
proof -
  have "client_request self up method path params json_body max_retries t =
      (Inl (KotApiError 429 ''Rate limit exceeded after retries''),
       t @ concat (map (backoff (descriptor method path params json_body))
                     [0 ..< nat max_retries]))"
    using loop_limited [OF assms, of "[0 ..< nat max_retries]"]
    by (simp add: client_request_def)
  then show ?thesis
    by (simp add: sent_append sent_backoffs sleeps_append sleeps_backoffs)
qed

text \<open>
  Claim C1. The claim has \<open>max_retries\<close> retries, each after its sleep. With the default
  3 and every answer a 429 the code sends the request three times: the first attempt and
  two retries. After the third 429 it logs that it retries in 4 seconds, sleeps them, and
  raises without that retry; a fourth answer at hand is never asked for.
\<close>

theorem request_rate_limit_trace:
  "client_request a_client (replies [too_many, too_many, too_many, too_many])
      ''GET'' ''/company'' None None 3 [] =
    (Inl (KotApiError 429 ''Rate limit exceeded after retries''),
     [Requested (descriptor ''GET'' ''/company'' None None), Warned 1, Slept 1,
      Requested (descriptor ''GET'' ''/company'' None None), Warned 2, Slept 2,
      Requested (descriptor ''GET'' ''/company'' None None), Warned 4, Slept 4])
   \<and> retries (snd (client_request a_client (replies [too_many, too_many, too_many, too_many])
      ''GET'' ''/company'' None None 3 [])) = 2"
  by (simp add: client_request_def retries_def replies_def too_many_def reply_def
      upt_conv_Cons Let_def)

text \<open>
  Claim C2. A response with status at least 400 and not 429, on whichever attempt it
  comes, makes \<open>_request\<close> raise \<open>KotApiError\<close> with that response's status code and its
  body text; the request that got it is the last event: no sleep, no further attempt.
\<close>

theorem request_error_immediate:
  assumes "limited up t (descriptor method path params json_body) j"
    and "j < nat max_retries"
    and "up (sent t @ replicate (Suc j) (descriptor method path params json_body)) = Inr resp"
    and "400 \<le> status_code resp" and "status_code resp \<noteq> 429"
  shows "client_request self up method path params json_body max_retries t =
    (Inl (KotApiError (status_code resp) (resp_text resp)),
     t @ concat (map (backoff (descriptor method path params json_body)) [0 ..< j])
       @ [Requested (descriptor method path params json_body)])"
  using loop_at [OF assms(1) _ assms(3) assms(5), of "[0 ..< nat max_retries]"] assms(2,4)
  by (simp add: client_request_def Let_def take_upt)

theorem request_error_immediate_witness:
  "limited (replies [too_many, not_found]) [] (descriptor ''GET'' ''/company'' None None) 1
   \<and> (1::nat) < nat 3
   \<and> replies [too_many, not_found]
        (sent [] @ replicate (Suc 1) (descriptor ''GET'' ''/company'' None None)) = Inr not_found
   \<and> 400 \<le> status_code not_found \<and> status_code not_found \<noteq> 429
   \<and> client_request a_client (replies [too_many, not_found]) ''GET'' ''/company'' None None 3 [] =
       (Inl (KotApiError 404 ''Not Found''),
        [Requested (descriptor ''GET'' ''/company'' None None), Warned 1, Slept 1,
         Requested (descriptor ''GET'' ''/company'' None None)])"
proof -
  have h1: "limited (replies [too_many, not_found]) [] (descriptor ''GET'' ''/company'' None None) 1"
    by (simp add: limited_def replies_def too_many_def reply_def)
  have h2: "(1::nat) < nat 3" by simp
  have h3: "replies [too_many, not_found]
        (sent [] @ replicate (Suc 1) (descriptor ''GET'' ''/company'' None None)) = Inr not_found"
    by (simp add: replies_def)
  have h4: "400 \<le> status_code not_found" by (simp add: not_found_def reply_def)
  have h5: "status_code not_found \<noteq> 429" by (simp add: not_found_def reply_def)
  show ?thesis
    using h1 h2 h3 h4 h5 request_error_immediate [OF h1 h2 h3 h4 h5, of a_client]
    by (simp add: backoff_def not_found_def reply_def)
qed

text \<open>
  Claim C3, as the code has it. A response with status 204 makes \<open>_request\<close> return
  \<open>None\<close> whatever the body is (\<open>resp.json()\<close> is not consulted). Any other response
  with status below 400 makes it return the parsed body when the body is JSON; when it
  is not, the decoding error of \<open>resp.json()\<close> leaves \<open>_request\<close> and nothing is
  returned.
\<close>

theorem request_success:
  assumes "limited up t (descriptor method path params json_body) j"
    and "j < nat max_retries"
    and "up (sent t @ replicate (Suc j) (descriptor method path params json_body)) = Inr resp"
    and "status_code resp < 400"
  shows "(status_code resp = 204 \<longrightarrow>
      client_request self up method path params json_body max_retries t =
        (Inr PNone,
         t @ concat (map (backoff (descriptor method path params json_body)) [0 ..< j])
           @ [Requested (descriptor method path params json_body)]))
    \<and> (status_code resp \<noteq> 204 \<and> resp_json resp = Some v \<longrightarrow>
      client_request self up method path params json_body max_retries t =
        (Inr v,
         t @ concat (map (backoff (descriptor method path params json_body)) [0 ..< j])
           @ [Requested (descriptor method path params json_body)]))
    \<and> (status_code resp \<noteq> 204 \<and> resp_json resp = None \<longrightarrow>
      client_request self up method path params json_body max_retries t =
        (Inl JSONDecodeError,
         t @ concat (map (backoff (descriptor method path params json_body)) [0 ..< j])
           @ [Requested (descriptor method path params json_body)]))"
  using loop_at [OF assms(1) _ assms(3), of "[0 ..< nat max_retries]"] assms(2,4)
  by (simp add: client_request_def Let_def take_upt)

theorem request_success_witness:
  "limited (replies [too_many, no_content]) [] (descriptor ''PUT'' ''/requests/R1'' None None) 1
   \<and> (1::nat) < nat 3
   \<and> replies [too_many, no_content]
        (sent [] @ replicate (Suc 1) (descriptor ''PUT'' ''/requests/R1'' None None)) = Inr no_content
   \<and> status_code no_content < 400
   \<and> client_request a_client (replies [too_many, no_content]) ''PUT'' ''/requests/R1'' None None 3 [] =
       (Inr PNone,
        [Requested (descriptor ''PUT'' ''/requests/R1'' None None), Warned 1, Slept 1,
         Requested (descriptor ''PUT'' ''/requests/R1'' None None)])
   \<and> limited (replies [ok_company]) [] (descriptor ''GET'' ''/company'' None None) 0
   \<and> (0::nat) < nat 3
   \<and> replies [ok_company]
        (sent [] @ replicate (Suc 0) (descriptor ''GET'' ''/company'' None None)) = Inr ok_company
   \<and> status_code ok_company < 400
   \<and> client_request a_client (replies [ok_company]) ''GET'' ''/company'' None None 3 [] =
       (Inr (PDict [(''companyCode'', PStr ''c1'')]),
        [Requested (descriptor ''GET'' ''/company'' None None)])"
proof -
  have h1: "limited (replies [too_many, no_content]) [] (descriptor ''PUT'' ''/requests/R1'' None None) 1"
    by (simp add: limited_def replies_def too_many_def reply_def)
  have h2: "(1::nat) < nat 3" by simp
  have h3: "replies [too_many, no_content]
        (sent [] @ replicate (Suc 1) (descriptor ''PUT'' ''/requests/R1'' None None)) = Inr no_content"
    by (simp add: replies_def)
  have h4: "status_code no_content < 400" by (simp add: no_content_def reply_def)
  have g1: "limited (replies [ok_company]) [] (descriptor ''GET'' ''/company'' None None) 0"
    by (simp add: limited_def)
  have g2: "(0::nat) < nat 3" by simp
  have g3: "replies [ok_company]
        (sent [] @ replicate (Suc 0) (descriptor ''GET'' ''/company'' None None)) = Inr ok_company"
    by (simp add: replies_def)
  have g4: "status_code ok_company < 400" by (simp add: ok_company_def reply_def)
  have a: "client_request a_client (replies [too_many, no_content]) ''PUT'' ''/requests/R1'' None None 3 [] =
       (Inr PNone,
        [Requested (descriptor ''PUT'' ''/requests/R1'' None None), Warned 1, Slept 1,
         Requested (descriptor ''PUT'' ''/requests/R1'' None None)])"
    using request_success [OF h1 h2 h3 h4, where self = a_client]
    by (simp add: backoff_def no_content_def reply_def)
  have b: "client_request a_client (replies [ok_company]) ''GET'' ''/company'' None None 3 [] =
       (Inr (PDict [(''companyCode'', PStr ''c1'')]),
        [Requested (descriptor ''GET'' ''/company'' None None)])"
    using request_success [OF g1 g2 g3 g4, where v = "PDict [(''companyCode'', PStr ''c1'')]" and self = a_client]
    by (simp add: ok_company_def reply_def)
  show ?thesis using h1 h2 h3 h4 g1 g2 g3 g4 a b by blast
qed

text \<open>
  Claim C3 as it is written has every response with status below 400, other than 204 and
  429, return a parsed body. An answer with status 200 whose body is not JSON returns
  nothing: \<open>resp.json()\<close> raises.
\<close>

theorem request_non_json_counterexample:
  "status_code not_json < 400 \<and> status_code not_json \<noteq> 204
   \<and> status_code not_json \<noteq> 429
   \<and> client_request a_client (replies [not_json]) ''GET'' ''/company'' None None 3 [] =
       (Inl JSONDecodeError, [Requested (descriptor ''GET'' ''/company'' None None)])"
  by (simp add: client_request_def replies_def not_json_def reply_def upt_conv_Cons Let_def)

section \<open>What the endpoint methods send\<close>

lemma loop_sent:
  "\<exists>k. k \<le> length as \<and> (as \<noteq> [] \<longrightarrow> 1 \<le> k) \<and>
     sent (snd (request_loop up rq as t)) = sent t @ replicate k rq"
proof (induction as arbitrary: t)
  case Nil
  then show ?case by simp
next
  case (Cons a as)
  show ?case
  proof (cases "up (sent t @ [rq])")
    case (Inl fault)
    then have "sent (snd (request_loop up rq (a # as) t)) = sent t @ replicate 1 rq"
      by (simp add: sent_append)
    then show ?thesis by (intro exI [of _ 1]) simp
  next
    case (Inr resp)
    show ?thesis
    proof (cases "status_code resp = 429")
      case True
      from Cons.IH [of "t @ [Requested rq, Warned (2 ^ a), Slept (2 ^ a)]"]
      obtain k where k: "k \<le> length as"
        "sent (snd (request_loop up rq as (t @ [Requested rq, Warned (2 ^ a), Slept (2 ^ a)])))
          = sent (t @ [Requested rq, Warned (2 ^ a), Slept (2 ^ a)]) @ replicate k rq"
        by blast
      have "sent (snd (request_loop up rq (a # as) t)) = sent t @ replicate (Suc k) rq"
        using Inr True k(2) by (simp add: sent_append Let_def)
      with k(1) show ?thesis by (intro exI [of _ "Suc k"]) simp
    next
      case False
      then have "sent (snd (request_loop up rq (a # as) t)) = sent t @ replicate 1 rq"
        using Inr by (simp add: sent_append Let_def split: option.splits)
      then show ?thesis by (intro exI [of _ 1]) simp
    qed
  qed
qed

lemma client_request_sent:
  "set (sent (snd (client_request self up method path params json_body 3 []))) =
     {descriptor method path params json_body}"
proof -
  obtain k where "1 \<le> k"
    "sent (snd (request_loop up (descriptor method path params json_body) [0 ..< nat 3] []))
       = sent [] @ replicate k (descriptor method path params json_body)"
    using loop_sent [of "[0 ..< nat 3]" up "descriptor method path params json_body" "[]"]
    by auto
  then show ?thesis by (auto simp: client_request_def)
qed

lemma client_get_sent:
  "set (sent (snd (client_get self up path kwargs []))) =
     {descriptor ''GET'' path
        (if filter (\<lambda>(k, v). v \<noteq> PNone) kwargs = [] then None
         else Some (filter (\<lambda>(k, v). v \<noteq> PNone) kwargs)) None}"
  by (simp add: client_get_def Let_def client_request_sent)


lemma filter_set: "fltr = filter (\<lambda>(k, v). v \<noteq> PNone) kwargs \<Longrightarrow>
  query_items (descriptor m p (if fltr = [] then None else Some fltr) j)
    = {(k, v). (k, v) \<in> set kwargs \<and> v \<noteq> PNone}"
  by (auto simp: query_items_def filter_empty_conv)

lemma list_employees_sent:
  "set (sent (snd (client_list_employees self up division_code []))) =
       {descriptor ''GET'' ''/employees''
          (case division_code of None \<Rightarrow> None | Some d \<Rightarrow> Some [(''divisionCode'', PStr d)])
          None}"
  by (cases division_code) (simp_all add: client_list_employees_def client_get_sent)

lemma monthly_sent:
  "set (sent (snd (client_get_monthly_workings self up month division_code []))) =
       {descriptor ''GET'' (''/monthly-workings/'' @ month)
          (case division_code of None \<Rightarrow> None | Some d \<Rightarrow> Some [(''divisionCode'', PStr d)])
          None}"
  by (cases division_code) (simp_all add: client_get_monthly_workings_def client_get_sent)

lemma filter_opt:
  "filter (\<lambda>(k, v). v \<noteq> PNone) ((k, opt x) # rest) =
     optional k x @ filter (\<lambda>(k, v). v \<noteq> PNone) rest"
  by (cases x) simp_all

lemma daily_sent:
  "set (sent (snd (client_get_daily_workings self up date start_date end_date
                         division_code []))) =
       {descriptor ''GET'' ''/daily-workings''
          (let given = optional ''date'' date @ optional ''startDate'' start_date
                 @ optional ''endDate'' end_date @ optional ''divisionCode'' division_code
           in if given = [] then None else Some given)
          None}"
  unfolding client_get_daily_workings_def client_get_sent filter_opt
  by (simp add: Let_def)


lemma get_request_shape:
  assumes "r \<in> set (sent (snd (client_get self up path kwargs [])))"
  shows "req_method r = ''GET'' \<and> req_path r = path \<and> req_json r = None
        \<and> query_items r = {(k, v). (k, v) \<in> set kwargs \<and> v \<noteq> PNone}
        \<and> (\<forall>k. distinct (map fst kwargs) \<and> (k, PNone) \<in> set kwargs
               \<longrightarrow> k \<notin> fst ` query_items r)"
proof -
  define fltr where "fltr = filter (\<lambda>(k, v). v \<noteq> PNone) kwargs"
  have r: "r = descriptor ''GET'' path (if fltr = [] then None else Some fltr) None"
    using assms unfolding client_get_sent fltr_def by simp
  have q: "query_items r = {(k, v). (k, v) \<in> set kwargs \<and> v \<noteq> PNone}"
    unfolding r by (rule filter_set [OF fltr_def])
  have d: "k \<notin> fst ` query_items r"
    if "distinct (map fst kwargs)" "(k, PNone) \<in> set kwargs" for k
  proof
    assume "k \<in> fst ` query_items r"
    then obtain v where "(k, v) \<in> set kwargs" "v \<noteq> PNone"
      unfolding q by auto
    with that show False
      by (meson eq_key_imp_eq_value)
  qed
  show ?thesis using q d by (simp add: r)
qed

text \<open>
  Claim C4. A call through \<open>_get\<close> sends at least one request, and every request it
  sends is a GET of the path whose query mapping holds exactly the keyword arguments that
  are not \<open>None\<close>: an argument left unset has no entry, with no value at all. The three
  methods with optional arguments send the entries of the arguments given and no others,
  and \<open>get_daily_workings(start_date="2026-01-01", end_date="2026-01-31")\<close> sends
  \<open>startDate\<close> and \<open>endDate\<close> only.
\<close>

theorem get_omits_unset:
  "sent (snd (client_get self up path kwargs [])) \<noteq> []
   \<and> (\<forall>r \<in> set (sent (snd (client_get self up path kwargs []))).
        req_method r = ''GET'' \<and> req_path r = path \<and> req_json r = None
        \<and> query_items r = {(k, v). (k, v) \<in> set kwargs \<and> v \<noteq> PNone}
        \<and> (\<forall>k. distinct (map fst kwargs) \<and> (k, PNone) \<in> set kwargs
               \<longrightarrow> k \<notin> fst ` query_items r))
   \<and> set (sent (snd (client_list_employees self up division_code []))) =
       {descriptor ''GET'' ''/employees''
          (case division_code of None \<Rightarrow> None | Some d \<Rightarrow> Some [(''divisionCode'', PStr d)])
          None}
   \<and> set (sent (snd (client_get_monthly_workings self up month division_code []))) =
       {descriptor ''GET'' (''/monthly-workings/'' @ month)
          (case division_code of None \<Rightarrow> None | Some d \<Rightarrow> Some [(''divisionCode'', PStr d)])
          None}
   \<and> set (sent (snd (client_get_daily_workings self up date start_date end_date
                         division_code []))) =
       {descriptor ''GET'' ''/daily-workings''
          (let given = optional ''date'' date @ optional ''startDate'' start_date
                 @ optional ''endDate'' end_date @ optional ''divisionCode'' division_code
           in if given = [] then None else Some given)
          None}
   \<and> set (sent (snd (client_get_daily_workings self up
                         None (Some ''2026-01-01'') (Some ''2026-01-31'') None []))) =
       {descriptor ''GET'' ''/daily-workings''
          (Some [(''startDate'', PStr ''2026-01-01''), (''endDate'', PStr ''2026-01-31'')])
          None}"
proof -
  have "set (sent (snd (client_get self up path kwargs []))) \<noteq> {}"
    unfolding client_get_sent by (rule insert_not_empty)
  then have 1: "sent (snd (client_get self up path kwargs [])) \<noteq> []"
    unfolding set_empty .
  have 2: "\<forall>r \<in> set (sent (snd (client_get self up path kwargs []))).
        req_method r = ''GET'' \<and> req_path r = path \<and> req_json r = None
        \<and> query_items r = {(k, v). (k, v) \<in> set kwargs \<and> v \<noteq> PNone}
        \<and> (\<forall>k. distinct (map fst kwargs) \<and> (k, PNone) \<in> set kwargs
               \<longrightarrow> k \<notin> fst ` query_items r)"
  proof (rule ballI)
    fix r assume "r \<in> set (sent (snd (client_get self up path kwargs [])))"
    then show "req_method r = ''GET'' \<and> req_path r = path \<and> req_json r = None
        \<and> query_items r = {(k, v). (k, v) \<in> set kwargs \<and> v \<noteq> PNone}
        \<and> (\<forall>k. distinct (map fst kwargs) \<and> (k, PNone) \<in> set kwargs
               \<longrightarrow> k \<notin> fst ` query_items r)"
      by (rule get_request_shape)
  qed
  have 6: "set (sent (snd (client_get_daily_workings self up
                         None (Some ''2026-01-01'') (Some ''2026-01-31'') None []))) =
       {descriptor ''GET'' ''/daily-workings''
          (Some [(''startDate'', PStr ''2026-01-01''), (''endDate'', PStr ''2026-01-31'')])
          None}"
    unfolding daily_sent by (simp add: Let_def)
  note 3 = list_employees_sent [of self up division_code]
  note 4 = monthly_sent [of self up month division_code]
  note 5 = daily_sent [of self up date start_date end_date division_code]
  from 1 2 3 4 5 6 show ?thesis
    by (intro conjI)
qed

theorem get_omits_unset_witness:
  "set (sent (snd (client_get_daily_workings a_client (replies [ok_company])
                         None (Some ''2026-01-01'') (Some ''2026-01-31'') None []))) =
       {descriptor ''GET'' ''/daily-workings''
          (Some [(''startDate'', PStr ''2026-01-01''), (''endDate'', PStr ''2026-01-31'')])
          None}
   \<and> ''date'' \<notin> fst ` query_items (descriptor ''GET'' ''/daily-workings''
          (Some [(''startDate'', PStr ''2026-01-01''), (''endDate'', PStr ''2026-01-31'')])
          None)
   \<and> ''divisionCode'' \<notin> fst ` query_items (descriptor ''GET'' ''/daily-workings''
          (Some [(''startDate'', PStr ''2026-01-01''), (''endDate'', PStr ''2026-01-31'')])
          None)"
proof -
  note t = get_omits_unset [of a_client "replies [ok_company]" "''/company''" "[]"
      None "''2026-01''" None None None]
  have "set (sent (snd (client_get_daily_workings a_client (replies [ok_company])
                         None (Some ''2026-01-01'') (Some ''2026-01-31'') None []))) =
       {descriptor ''GET'' ''/daily-workings''
          (Some [(''startDate'', PStr ''2026-01-01''), (''endDate'', PStr ''2026-01-31'')])
          None}"
    using t by (elim conjE)
  then show ?thesis
    by (simp add: query_items_def)
qed

lemma client_post_sent:
  "set (sent (snd (client_post self up path body []))) =
     {descriptor ''POST'' path None (Some body)}"
  by (simp add: client_post_def client_request_sent)


text \<open>
  Claim C5. \<open>record_time(employee_key="E001", record_type=1)\<close> with no date and no
  time sends (once or, after 429 answers, again the same) the request
  \<open>POST /daily-workings/timerecord/E001\<close> with the body \<open>{"type": 1}\<close>: the keys
  \<open>date\<close> and \<open>time\<close> are not in it.
\<close>

theorem record_time_minimal_body:
  "set (sent (snd (client_record_time self up ''E001'' 1 None None []))) =
     {descriptor ''POST'' ''/daily-workings/timerecord/E001'' None (Some [(''type'', PInt 1)])}"
  by (simp add: client_record_time_def client_post_sent)

theorem record_time_minimal_body_witness:
  "client_record_time a_client (replies [ok_recorded]) ''E001'' 1 None None [] =
     (Inr (PDict []),
      [Requested (descriptor ''POST'' ''/daily-workings/timerecord/E001'' None
         (Some [(''type'', PInt 1)]))])
   \<and> set (sent (snd (client_record_time a_client (replies [ok_recorded])
        ''E001'' 1 None None []))) =
     {descriptor ''POST'' ''/daily-workings/timerecord/E001'' None (Some [(''type'', PInt 1)])}"
proof -
  have "client_record_time a_client (replies [ok_recorded]) ''E001'' 1 None None [] =
     (Inr (PDict []),
      [Requested (descriptor ''POST'' ''/daily-workings/timerecord/E001'' None
         (Some [(''type'', PInt 1)]))])"
    by (simp add: client_record_time_def client_post_def client_request_def replies_def
        ok_recorded_def reply_def upt_conv_Cons Let_def)
  with record_time_minimal_body [of a_client "replies [ok_recorded]"] show ?thesis
    by (rule_tac conjI)
qed



section \<open>Properties of the tool adapter\<close>

lemma tool_cong:
  assumes "\<And>x. r x = r' x" and "\<And>c u. m c u = m' c u"
  shows "tool env r m t = tool env r' m' t"
proof -
  have "r = r'" using assms(1) by (rule ext)
  moreover have "m = m'" using assms(2) by (intro ext)
  ultimately show ?thesis by simp
qed

lemma call_tool_tool:
  "call_tool env up dumps tc t = tool env (render dumps tc) (\<lambda>c. client_call c up tc) t"
  by (cases tc;
    simp add: get_company_def list_administrators_def list_employees_def
      get_employee_def list_divisions_def list_working_types_def list_employee_groups_def
      get_daily_workings_def get_monthly_workings_def get_yearly_holidays_def
      record_time_def get_schedule_requests_def approve_request_def reject_request_def
      check_token_def;
    rule tool_cong; simp)

lemma tool_no_client:
  "get_client env t = (Inl e, t') \<Longrightarrow> tool env r m t = (Inl e, t')"
  by (simp add: tool_def)

lemma get_client_missing:
  "env ''KOT_ACCESS_TOKEN'' = None \<or> env ''KOT_ACCESS_TOKEN'' = Some [] \<Longrightarrow>
   get_client env t = (Inl (RuntimeError missing_token_message), t)"
  by (auto simp: get_client_def)

lemma get_client_present:
  "env ''KOT_ACCESS_TOKEN'' = Some token \<Longrightarrow> token \<noteq> [] \<Longrightarrow>
   KingOfTimeClient_init token = Inr self \<Longrightarrow>
   get_client env t = (Inr self, t @ [Constructed self])"
  by (simp add: get_client_def Let_def)

lemma get_client_bad_token:
  "env ''KOT_ACCESS_TOKEN'' = Some token \<Longrightarrow> token \<noteq> [] \<Longrightarrow>
   KingOfTimeClient_init token = Inl e \<Longrightarrow>
   get_client env t = (Inl e, t)"
  by (simp add: get_client_def Let_def)

lemma init_token: "KingOfTimeClient_init token = Inr self \<Longrightarrow> c_token self = token"
  by (auto simp: KingOfTimeClient_init_def Let_def split: if_splits)

text \<open>An exception of the constructor leaves every tool, with nothing done.\<close>

lemma call_tool_bad_token:
  "env ''KOT_ACCESS_TOKEN'' = Some token \<Longrightarrow> token \<noteq> [] \<Longrightarrow>
   KingOfTimeClient_init token = Inl e \<Longrightarrow>
   call_tool env up dumps tc t = (Inl e, t)"
  unfolding call_tool_tool
  by (rule tool_no_client) (rule get_client_bad_token)

lemma init_not_ascii:
  "KingOfTimeClient_init [CHR 0xC3, CHR 0xA9] = Inl UnicodeEncodeError"
  by (simp add: KingOfTimeClient_init_def is_ascii_def Let_def)

lemma init_secret: "KingOfTimeClient_init ''secret'' = Inr a_client"
  by (simp add: KingOfTimeClient_init_def a_client_def is_ascii_def Let_def)

lemma constructed_append: "constructed (t @ u) = constructed t @ constructed u"
  by (induction t rule: constructed.induct) simp_all

lemma loop_constructed: "constructed (snd (request_loop up rq as t)) = constructed t"
  by (induction as arbitrary: t)
    (simp_all add: Let_def constructed_append split: sum.splits option.splits)

lemma client_call_constructed: "constructed (snd (client_call c up tc t)) = constructed t"
  by (cases tc)
    (simp_all add: client_get_company_def client_list_administrators_def
      client_list_employees_def client_get_employee_def client_list_divisions_def
      client_list_working_types_def client_list_employee_groups_def
      client_get_daily_workings_def client_get_monthly_workings_def
      client_get_yearly_holidays_def client_record_time_def client_get_schedule_requests_def
      client_approve_request_def client_reject_request_def client_check_token_def
      client_get_def client_post_def client_put_def client_request_def loop_constructed
      Let_def)

lemma tool_body_constructed:
  "constructed (snd (tool_body r outcome)) = constructed (snd outcome)"
  by (cases outcome)
    (auto simp: tool_body_def constructed_append split: sum.splits exn.splits)

lemma call_tool_constructed:
  "constructed (snd (call_tool env up dumps tc t)) =
     constructed t @
       (case env ''KOT_ACCESS_TOKEN'' of
          None \<Rightarrow> []
        | Some token \<Rightarrow>
            if token = [] then []
            else (case KingOfTimeClient_init token of Inl e \<Rightarrow> [] | Inr self \<Rightarrow> [self]))"
proof (cases "env ''KOT_ACCESS_TOKEN'' = None \<or> env ''KOT_ACCESS_TOKEN'' = Some []")
  case True
  then show ?thesis
    unfolding call_tool_tool
    using tool_no_client [OF get_client_missing [where env = env, OF True]] by auto
next
  case False
  then obtain token where tok: "env ''KOT_ACCESS_TOKEN'' = Some token" "token \<noteq> []"
    by auto
  show ?thesis
  proof (cases "KingOfTimeClient_init token")
    case (Inl e)
    show ?thesis
      unfolding call_tool_tool
      using tool_no_client [OF get_client_bad_token [where env = env, OF tok Inl]]
      by (simp add: tok Inl)
  next
    case (Inr self)
    show ?thesis
      unfolding call_tool_tool
      by (simp add: tool_def get_client_present [where env = env, OF tok Inr]
          tool_body_constructed client_call_constructed constructed_append tok Inr)
  qed
qed

text \<open>
  Claim C7. When the access token is not in the environment, every tool raises the
  configuration error of \<open>_get_client\<close>, and the error leaves the tool as an exception;
  the trace is unchanged: no client was constructed and no request was sent.
\<close>

theorem missing_token_raises:
  assumes "env ''KOT_ACCESS_TOKEN'' = None"
  shows "call_tool env up dumps tc t = (Inl (RuntimeError missing_token_message), t)"
  unfolding call_tool_tool
  by (rule tool_no_client) (rule get_client_missing, rule disjI1, rule assms)

theorem missing_token_raises_witness:
  "no_token ''KOT_ACCESS_TOKEN'' = None
   \<and> call_tool no_token (replies [ok_company]) dumps_small Get_company [] =
       (Inl (RuntimeError missing_token_message), [])"
proof -
  have h: "no_token ''KOT_ACCESS_TOKEN'' = None" by (simp add: no_token_def)
  from h missing_token_raises [where env = no_token, OF h] show ?thesis by (rule_tac conjI)
qed


text \<open>
  Claim C10. A token that is present but empty is treated as an absent one:
  \<open>_get_client\<close> and every tool raise the same configuration error and construct
  nothing. Every client that is constructed has a non-empty token.
\<close>

theorem empty_token_is_missing:
  "(env ''KOT_ACCESS_TOKEN'' = Some [] \<longrightarrow>
      get_client env t = (Inl (RuntimeError missing_token_message), t)
      \<and> get_client env t = get_client (env(''KOT_ACCESS_TOKEN'' := None)) t
      \<and> call_tool env up dumps tc t = (Inl (RuntimeError missing_token_message), t)
      \<and> call_tool env up dumps tc t =
          call_tool (env(''KOT_ACCESS_TOKEN'' := None)) up dumps tc t)
   \<and> (\<forall>c \<in> set (constructed (snd (get_client env []))). c_token c \<noteq> [])
   \<and> (\<forall>c \<in> set (constructed (snd (call_tool env up dumps tc []))). c_token c \<noteq> [])"
proof (intro conjI impI)
  assume e: "env ''KOT_ACCESS_TOKEN'' = Some []"
  then have d: "env ''KOT_ACCESS_TOKEN'' = None \<or> env ''KOT_ACCESS_TOKEN'' = Some []" ..
  have n: "(env(''KOT_ACCESS_TOKEN'' := None)) ''KOT_ACCESS_TOKEN'' = None
     \<or> (env(''KOT_ACCESS_TOKEN'' := None)) ''KOT_ACCESS_TOKEN'' = Some []"
    by simp
  show 1: "get_client env t = (Inl (RuntimeError missing_token_message), t)"
    by (rule get_client_missing [where env = env, OF d])
  show "get_client env t = get_client (env(''KOT_ACCESS_TOKEN'' := None)) t"
    unfolding 1 get_client_missing [where env = "env(''KOT_ACCESS_TOKEN'' := None)", OF n] ..
  show 2: "call_tool env up dumps tc t = (Inl (RuntimeError missing_token_message), t)"
    unfolding call_tool_tool by (rule tool_no_client) (rule 1)
  have "call_tool (env(''KOT_ACCESS_TOKEN'' := None)) up dumps tc t
      = (Inl (RuntimeError missing_token_message), t)"
    unfolding call_tool_tool by (rule tool_no_client) (rule get_client_missing [where env = "env(''KOT_ACCESS_TOKEN'' := None)", OF n])
  then show "call_tool env up dumps tc t =
          call_tool (env(''KOT_ACCESS_TOKEN'' := None)) up dumps tc t"
    unfolding 2 ..
next
  show "\<forall>c \<in> set (constructed (snd (get_client env []))). c_token c \<noteq> []"
    by (auto simp: get_client_def Let_def dest: init_token init_token [OF sym]
        split: option.splits sum.splits)
next
  show "\<forall>c \<in> set (constructed (snd (call_tool env up dumps tc []))). c_token c \<noteq> []"
    unfolding call_tool_constructed
    by (auto dest: init_token init_token [OF sym] split: option.splits sum.splits if_splits)
qed

theorem empty_token_is_missing_witness:
  "empty_token ''KOT_ACCESS_TOKEN'' = Some []
   \<and> call_tool empty_token (replies [ok_company]) dumps_small Get_company [] =
       (Inl (RuntimeError missing_token_message), [])
   \<and> constructed (snd (call_tool with_token (replies [ok_company]) dumps_small
        Get_company [])) = [a_client]
   \<and> c_token a_client \<noteq> []"
proof -
  have h: "empty_token ''KOT_ACCESS_TOKEN'' = Some []" by (simp add: empty_token_def)
  have a: "call_tool empty_token (replies [ok_company]) dumps_small Get_company [] =
       (Inl (RuntimeError missing_token_message), [])"
    using h empty_token_is_missing [where env = empty_token and t = "[]"
        and up = "replies [ok_company]" and dumps = dumps_small and tc = Get_company]
    by blast
  have b: "constructed (snd (call_tool with_token (replies [ok_company]) dumps_small
        Get_company [])) = [a_client]"
    using call_tool_constructed [of with_token "replies [ok_company]" dumps_small Get_company "[]"]
    by (simp add: with_token_def init_secret)
  have c: "c_token a_client \<noteq> []"
    by (simp add: a_client_def)
  from h a b c show ?thesis by blast
qed

lemma tool_api_error:
  "get_client env t = (Inr c, t1) \<Longrightarrow> m c t1 = (Inl (KotApiError status message), t2) \<Longrightarrow>
   tool env r m t = (Inr (error_prefix @ KotApiError_str status message), t2 @ [Closed])"
  by (simp add: tool_def tool_body_def)

lemma tool_other_error:
  "get_client env t = (Inr c, t1) \<Longrightarrow> m c t1 = (Inl e, t2) \<Longrightarrow> \<not> is_api_error e \<Longrightarrow>
   tool env r m t = (Inl e, t2 @ [Closed])"
  by (cases e) (simp_all add: tool_def tool_body_def)

lemma tool_result:
  "get_client env t = (Inr c, t1) \<Longrightarrow> m c t1 = (Inr v, t2) \<Longrightarrow>
   tool env r m t = (Inr (r v), t2 @ [Closed])"
  by (simp add: tool_def tool_body_def)

lemma one_line_append: "one_line (a @ b) \<longleftrightarrow> one_line a \<and> one_line b"
  by (auto simp: one_line_def)

lemma one_line_digit: "d < 10 \<Longrightarrow> one_line [digit d]"
proof -
  assume "d < 10"
  then have "digit d \<in> set ''0123456789''"
    unfolding digit_def by (intro nth_mem) simp
  then show ?thesis
    unfolding one_line_def by auto
qed

lemma one_line_str_nat: "one_line (str_nat n)"
proof (induction n rule: str_nat.induct)
  case (1 n)
  show ?case
  proof (cases "n < 10")
    case True
    then show ?thesis by (subst str_nat.simps) (simp add: one_line_digit)
  next
    case False
    with 1 show ?thesis
      by (subst str_nat.simps) (simp add: one_line_append one_line_digit)
  qed
qed

lemma one_line_str_int: "one_line (str_int i)"
  using one_line_str_nat [of "nat (- i)"] one_line_str_nat [of "nat i"]
  by (simp add: str_int_def one_line_def)

lemma one_line_error_text:
  "one_line (error_prefix @ ''['' @ str_int status @ ''] '' @ message) = one_line message"
  unfolding one_line_append
  by (simp add: one_line_str_int) (simp add: one_line_def error_prefix_def)

lemma str_404: "str_int 404 = ''404''"
  by (simp add: str_int_def str_nat.simps digit_def)

lemma str_500: "str_int 500 = ''500''"
  by (simp add: str_int_def str_nat.simps digit_def)

lemma get_company_not_found:
  "client_call a_client (replies [not_found]) Get_company
     [Constructed a_client] =
   (Inl (KotApiError 404 ''Not Found''),
    [Constructed a_client,
     Requested (descriptor ''GET'' ''/company'' None None)])"
  by (simp add: client_get_company_def client_get_def client_request_def replies_def
      not_found_def reply_def upt_conv_Cons Let_def)

lemma get_company_refused:
  "client_call a_client (replies []) Get_company
     [Constructed a_client] =
   (Inl (TransportError ''connection refused''),
    [Constructed a_client,
     Requested (descriptor ''GET'' ''/company'' None None)])"
  by (simp add: client_get_company_def client_get_def client_request_def replies_def
      upt_conv_Cons Let_def)

text \<open>
  Claim C8, as the code has it. With a token configured from which the client is
  constructed, whenever the client method of a tool raises \<open>KotApiError\<close> the tool
  returns the text made of the error prefix, the status in brackets and the message, and
  closes the client; that text is one line exactly when the message has no line break.
  Any other exception of the client method leaves the tool as it is, after the client is
  closed.
\<close>

theorem api_error_becomes_text:
  assumes "env ''KOT_ACCESS_TOKEN'' = Some token" and "token \<noteq> []"
    and "KingOfTimeClient_init token = Inr self"
  shows "(client_call self up tc (t @ [Constructed self])
          = (Inl (KotApiError status message), t') \<longrightarrow>
        call_tool env up dumps tc t =
          (Inr (error_prefix @ ''['' @ str_int status @ ''] '' @ message), t' @ [Closed])
        \<and> one_line (error_prefix @ ''['' @ str_int status @ ''] '' @ message)
            = one_line message)
    \<and> (client_call self up tc (t @ [Constructed self])
          = (Inl e, t') \<and> \<not> is_api_error e \<longrightarrow>
        call_tool env up dumps tc t = (Inl e, t' @ [Closed]))"
proof -
  note g = get_client_present [where env = env, OF assms, of t]
  have 1: "call_tool env up dumps tc t =
      (Inr (error_prefix @ ''['' @ str_int status @ ''] '' @ message), t' @ [Closed])"
    if a: "client_call self up tc (t @ [Constructed self])
          = (Inl (KotApiError status message), t')"
    unfolding call_tool_tool
    using tool_api_error [where m = "\<lambda>c. client_call c up tc", OF g a]
    by (simp add: KotApiError_str_def)
  have 2: "call_tool env up dumps tc t = (Inl e, t' @ [Closed])"
    if b: "client_call self up tc (t @ [Constructed self]) = (Inl e, t')"
      and n: "\<not> is_api_error e"
    unfolding call_tool_tool
    by (rule tool_other_error [where m = "\<lambda>c. client_call c up tc", OF g b n])
  show ?thesis
  proof (intro conjI impI)
    assume "client_call self up tc (t @ [Constructed self])
          = (Inl (KotApiError status message), t')"
    then show "call_tool env up dumps tc t =
        (Inr (error_prefix @ ''['' @ str_int status @ ''] '' @ message), t' @ [Closed])"
      by (rule 1)
  next
    show "one_line (error_prefix @ ''['' @ str_int status @ ''] '' @ message)
            = one_line message"
      by (rule one_line_error_text)
  next
    assume "client_call self up tc (t @ [Constructed self]) = (Inl e, t')
        \<and> \<not> is_api_error e"
    then show "call_tool env up dumps tc t = (Inl e, t' @ [Closed])"
      using 2 by blast
  qed
qed


theorem api_error_becomes_text_witness:
  "with_token ''KOT_ACCESS_TOKEN'' = Some ''secret'' \<and> ''secret'' \<noteq> []
   \<and> call_tool with_token (replies [not_found]) dumps_small Get_company [] =
       (Inr (error_prefix @ ''[404] Not Found''),
        [Constructed a_client,
         Requested (descriptor ''GET'' ''/company'' None None), Closed])
   \<and> one_line (error_prefix @ ''[404] Not Found'')
   \<and> call_tool with_token (replies []) dumps_small Get_company [] =
       (Inl (TransportError ''connection refused''),
        [Constructed a_client,
         Requested (descriptor ''GET'' ''/company'' None None), Closed])"
proof -
  have h1: "with_token ''KOT_ACCESS_TOKEN'' = Some ''secret''" by (simp add: with_token_def)
  have h2: "''secret'' \<noteq> []" by simp
  note a = api_error_becomes_text [where env = with_token, OF h1 h2 init_secret, where t = "[]"
      and up = "replies [not_found]" and tc = Get_company and status = 404
      and message = "''Not Found''" and dumps = dumps_small,
      THEN conjunct1, rule_format, unfolded append_Nil, OF get_company_not_found]
  note b = api_error_becomes_text [where env = with_token, OF h1 h2 init_secret, where t = "[]"
      and up = "replies []" and tc = Get_company
      and e = "TransportError ''connection refused''" and dumps = dumps_small,
      THEN conjunct2, rule_format, unfolded append_Nil,
      OF conjI [OF get_company_refused]]
  have c: "one_line (error_prefix @ ''[404] Not Found'')"
    using a by (simp add: str_404 one_line_def)
  have d: "call_tool with_token (replies []) dumps_small Get_company [] =
       (Inl (TransportError ''connection refused''),
        [Constructed a_client,
         Requested (descriptor ''GET'' ''/company'' None None), Closed])"
    using b by simp
  have e: "call_tool with_token (replies [not_found]) dumps_small Get_company [] =
       (Inr (error_prefix @ ''[404] Not Found''),
        [Constructed a_client,
         Requested (descriptor ''GET'' ''/company'' None None), Closed])"
    using a by (simp add: str_404)
  from h1 h2 e c d show ?thesis by (intro conjI)
qed

text \<open>
  Claim C8 as it is written calls the text one line. The message is the raw body of the
  response, so a body of two lines gives a text of two lines.
\<close>

theorem error_text_lines_counterexample:
  "call_tool with_token (replies [server_error]) dumps_small Get_company [] =
       (Inr (error_prefix @ ''[500] line 1'' @ [CHR 0x0A] @ ''line 2''),
        [Constructed a_client,
         Requested (descriptor ''GET'' ''/company'' None None), Closed])
   \<and> \<not> one_line (error_prefix @ ''[500] line 1'' @ [CHR 0x0A] @ ''line 2'')"
  by (simp add: get_company_def tool_def get_client_def with_token_def init_secret tool_body_def
      client_get_company_def client_get_def client_request_def replies_def
      server_error_def reply_def upt_conv_Cons Let_def KotApiError_str_def str_500
      one_line_def)

lemma client_approve_at:
  assumes "limited up t (approval request_id) j" and "j < 3"
    and "up (sent t @ replicate (Suc j) (approval request_id)) = Inr resp"
    and "status_code resp < 400"
  shows "client_approve_request self up request_id t =
    (if status_code resp = 204 then Inr PNone
     else (case resp_json resp of None \<Rightarrow> Inl JSONDecodeError | Some v \<Rightarrow> Inr v),
     t @ concat (map (backoff (approval request_id)) [0 ..< j])
       @ [Requested (approval request_id)])"
  using loop_at [OF assms(1) _ assms(3), of "[0 ..< nat 3]"] assms(2,4)
  by (simp add: client_approve_request_def client_put_def client_request_def Let_def take_upt
      split: option.splits)

text \<open>
  Claim C6, as the code has it. With a token configured from which the client is
  constructed, when the endpoint answers the approval with status 204 the tool returns the fixed confirmation text. When it answers
  with another status below 400 and a JSON body, the tool returns that body serialised
  by \<open>_fmt\<close> if the parsed value is true in Python's sense, and the confirmation text if
  it is not (\<open>null\<close>, \<open>false\<close>, zero, an empty string, array or object).
\<close>

theorem approve_request_text:
  assumes "env ''KOT_ACCESS_TOKEN'' = Some token" and "token \<noteq> []"
    and "limited up (t @ [Constructed self]) (approval request_id) j"
    and "j < 3"
    and "up (sent (t @ [Constructed self])
             @ replicate (Suc j) (approval request_id)) = Inr resp"
    and "status_code resp < 400"
    and "KingOfTimeClient_init token = Inr self"
  shows "(status_code resp = 204 \<longrightarrow>
      approve_request env up dumps request_id t =
        (Inr approved_text,
         t @ [Constructed self]
           @ concat (map (backoff (approval request_id)) [0 ..< j])
           @ [Requested (approval request_id), Closed]))
    \<and> (status_code resp \<noteq> 204 \<and> resp_json resp = Some v \<longrightarrow>
      approve_request env up dumps request_id t =
        (Inr (if truthy v then fmt dumps v else approved_text),
         t @ [Constructed self]
           @ concat (map (backoff (approval request_id)) [0 ..< j])
           @ [Requested (approval request_id), Closed]))"
proof -
  note g = get_client_present [where env = env, OF assms(1,2,7), of t]
  note c = client_approve_at [OF assms(3,4,5,6), of self]
  show ?thesis
  proof (intro conjI impI)
    assume s: "status_code resp = 204"
    have "client_approve_request self up request_id
        (t @ [Constructed self]) =
      (Inr PNone, (t @ [Constructed self])
         @ concat (map (backoff (approval request_id)) [0 ..< j])
         @ [Requested (approval request_id)])"
      using c s by simp
    from tool_result [where m = "\<lambda>c. client_approve_request c up request_id", OF g this]
    show "approve_request env up dumps request_id t =
        (Inr approved_text,
         t @ [Constructed self]
           @ concat (map (backoff (approval request_id)) [0 ..< j])
           @ [Requested (approval request_id), Closed])"
      by (simp add: approve_request_def)
  next
    assume s: "status_code resp \<noteq> 204 \<and> resp_json resp = Some v"
    have "client_approve_request self up request_id
        (t @ [Constructed self]) =
      (Inr v, (t @ [Constructed self])
         @ concat (map (backoff (approval request_id)) [0 ..< j])
         @ [Requested (approval request_id)])"
      using c s by simp
    from tool_result [where m = "\<lambda>c. client_approve_request c up request_id", OF g this]
    show "approve_request env up dumps request_id t =
        (Inr (if truthy v then fmt dumps v else approved_text),
         t @ [Constructed self]
           @ concat (map (backoff (approval request_id)) [0 ..< j])
           @ [Requested (approval request_id), Closed])"
      by (simp add: approve_request_def)
  qed
qed

theorem approve_request_text_witness:
  "with_token ''KOT_ACCESS_TOKEN'' = Some ''secret'' \<and> ''secret'' \<noteq> []
   \<and> limited (replies [no_content]) ([] @ [Constructed a_client])
        (approval ''R1'') 0
   \<and> (0::nat) < 3
   \<and> replies [no_content] (sent ([] @ [Constructed a_client])
        @ replicate (Suc 0) (approval ''R1'')) = Inr no_content
   \<and> status_code no_content < 400
   \<and> approve_request with_token (replies [no_content]) dumps_small ''R1'' [] =
       (Inr approved_text,
        [Constructed a_client, Requested (approval ''R1''), Closed])
   \<and> replies [ok_true] (sent ([] @ [Constructed a_client])
        @ replicate (Suc 0) (approval ''R1'')) = Inr ok_true
   \<and> status_code ok_true < 400
   \<and> approve_request with_token (replies [ok_true]) dumps_small ''R1'' [] =
       (Inr ''true'',
        [Constructed a_client, Requested (approval ''R1''), Closed])"
proof -
  have h1: "with_token ''KOT_ACCESS_TOKEN'' = Some ''secret''" by (simp add: with_token_def)
  have h2: "''secret'' \<noteq> []" by simp
  have h3: "limited up ([] @ [Constructed a_client])
        (approval ''R1'') 0" for up
    by (simp add: limited_def)
  have h4: "(0::nat) < 3" by simp
  have h5: "replies [no_content] (sent ([] @ [Constructed a_client])
        @ replicate (Suc 0) (approval ''R1'')) = Inr no_content"
    by (simp add: replies_def)
  have h6: "status_code no_content < 400" by (simp add: no_content_def reply_def)
  have g5: "replies [ok_true] (sent ([] @ [Constructed a_client])
        @ replicate (Suc 0) (approval ''R1'')) = Inr ok_true"
    by (simp add: replies_def)
  have g6: "status_code ok_true < 400" by (simp add: ok_true_def reply_def)
  have a: "approve_request with_token (replies [no_content]) dumps_small ''R1'' [] =
       (Inr approved_text,
        [Constructed a_client, Requested (approval ''R1''), Closed])"
    using approve_request_text [where env = with_token and token = "''secret''"
        and up = "replies [no_content]" and t = "[]" and request_id = "''R1''" and j = 0
        and resp = no_content and dumps = dumps_small and self = a_client,
        OF h1 h2 h3 h4 h5 h6 init_secret]
    by (simp add: no_content_def reply_def)
  have b: "approve_request with_token (replies [ok_true]) dumps_small ''R1'' [] =
       (Inr ''true'',
        [Constructed a_client, Requested (approval ''R1''), Closed])"
    using approve_request_text [where env = with_token and token = "''secret''"
        and up = "replies [ok_true]" and t = "[]" and request_id = "''R1''" and j = 0
        and resp = ok_true and dumps = dumps_small and v = "PBool True"
        and self = a_client, OF h1 h2 h3 h4 g5 g6 init_secret]
    by (simp add: ok_true_def reply_def fmt_def dumps_small_def)
  from h1 h2 h3 h4 h5 h6 a g5 g6 b show ?thesis by (intro conjI)
qed

text \<open>
  Claim C6 as it is written has every body that is not empty returned as JSON text. The
  bodies \<open>false\<close> and \<open>{}\<close>, with status 200 and 201, get the confirmation text.
\<close>

theorem approve_request_falsy_counterexample:
  "approve_request with_token (replies [ok_false]) dumps_small ''R1'' [] =
     (Inr approved_text,
      [Constructed a_client, Requested (approval ''R1''), Closed])
   \<and> approve_request with_token (replies [ok_recorded]) dumps_small ''R1'' [] =
     (Inr approved_text,
      [Constructed a_client, Requested (approval ''R1''), Closed])
   \<and> resp_text ok_false \<noteq> [] \<and> resp_text ok_recorded \<noteq> []
   \<and> fmt dumps_small (PBool False) = ''false''
   \<and> approved_text \<noteq> fmt dumps_small (PBool False)"
  by (simp add: approve_request_def tool_def get_client_def with_token_def init_secret tool_body_def
      client_approve_request_def client_put_def client_request_def replies_def
      ok_false_def ok_recorded_def reply_def upt_conv_Cons Let_def fmt_def dumps_small_def approved_text_def)

end
